theory Spec2Isabelle
  imports Main "HOL-Library.Sublist" "HOL-Library.Word"
begin

section \<open>Values of the plugin framework\<close>

text \<open>
  A \<^verbatim>\<open>types.String\<close> (and \<^verbatim>\<open>types.Int64\<close>, \<^verbatim>\<open>types.Bool\<close>, \<^verbatim>\<open>types.List\<close>) is null,
  unknown or known; an int64 is a 64-bit word (read as signed by \<open>sint\<close>).
  \<^verbatim>\<open>ValueString()\<close> of a null or unknown string is the empty string.
\<close>

datatype 'a tfvalue = Null | Unknown | Value 'a

type_synonym types_String = "string tfvalue"
type_synonym types_Int64 = "64 word tfvalue"
type_synonym types_Bool = "bool tfvalue"

fun IsNull :: "'a tfvalue \<Rightarrow> bool" where
  "IsNull Null = True"
| "IsNull Unknown = False"
| "IsNull (Value v) = False"

fun IsUnknown :: "'a tfvalue \<Rightarrow> bool" where
  "IsUnknown Null = False"
| "IsUnknown Unknown = True"
| "IsUnknown (Value v) = False"

fun ValueString :: "types_String \<Rightarrow> string" where
  "ValueString Null = []"
| "ValueString Unknown = []"
| "ValueString (Value s) = s"

text \<open>
  Diagnostics: \<^verbatim>\<open>AddError(summary, detail)\<close> appends an error diagnostic unless an equal one
  is already held; \<^verbatim>\<open>HasError()\<close> looks for a diagnostic of error severity.
\<close>

datatype diagnostic = ErrorDiagnostic string string | WarningDiagnostic string string

fun is_error :: "diagnostic \<Rightarrow> bool" where
  "is_error (ErrorDiagnostic s d) = True"
| "is_error (WarningDiagnostic s d) = False"

definition HasError :: "diagnostic list \<Rightarrow> bool" where
  "HasError ds = list_ex is_error ds"

definition AddError :: "string \<Rightarrow> string \<Rightarrow> diagnostic list \<Rightarrow> diagnostic list" where
  "AddError summary detail ds =
     (if ErrorDiagnostic summary detail \<in> set ds then ds
      else ds @ [ErrorDiagnostic summary detail])"

text \<open>
  The response of a lifecycle step, as far as the handlers touch it: the state (\<open>None\<close> is
  the null state, which is also what \<^verbatim>\<open>RemoveResource\<close> leaves) and the diagnostics.
  A handler receives the response by pointer and writes into it; the model takes the
  response as the framework hands it over and returns it as the handler leaves it.
  \<^verbatim>\<open>req.Plan.Get\<close>, \<^verbatim>\<open>req.State.Get\<close> and \<^verbatim>\<open>resp.State.Set\<close> work on values that already
  have the model's type, so they add no diagnostics. Logging (\<^verbatim>\<open>tflog\<close>) is left out.
\<close>

record 's Response =
  State :: "'s option"
  Diagnostics :: "diagnostic list"

definition State_Set :: "'s \<Rightarrow> 's Response \<Rightarrow> 's Response" where
  "State_Set data resp = resp\<lparr>State := Some data\<rparr>"

definition RemoveResource :: "'s Response \<Rightarrow> 's Response" where
  "RemoveResource resp = resp\<lparr>State := None\<rparr>"

definition Diagnostics_AddError :: "string \<Rightarrow> string \<Rightarrow> 's Response \<Rightarrow> 's Response" where
  "Diagnostics_AddError summary detail resp =
     resp\<lparr>Diagnostics := AddError summary detail (Diagnostics resp)\<rparr>"

text \<open>
  A handler run: the calls it made on its client, in order, and how it ended. Go panics
  when a nil pointer is dereferenced; that is the outcome \<open>Panics\<close>.
\<close>

datatype 'r outcome = Returns 'r | Panics

section \<open>The access key resource\<close>

text \<open>
  The admin client (package \<^verbatim>\<open>internal/client\<close>) is kept abstract. Its request and
  result structs hold the fields the handlers use, and its operations are parameters: each
  returns Go's pair of a pointer (\<open>None\<close> is nil) and an error (\<open>None\<close> is nil, \<open>Some msg\<close>
  an error that prints as \<open>msg\<close>). A handler checks the error first and the pointer
  after it, and so does the model.
\<close>

record KeyResourceModel =
  Key_ID :: types_String
  Key_Name :: types_String
  Key_SecretAccessKey :: types_String

record ImportKeyRequest =
  ImportKey_AccessKeyID :: string
  ImportKey_SecretAccessKey :: string
  ImportKey_Name :: "string option"

record CreateKeyRequest =
  CreateKey_Name :: "string option"

record GetKeyInfoRequest =
  GetKeyInfo_ID :: string

record KeyInfo =
  KeyInfo_AccessKeyID :: string
  KeyInfo_Name :: string
  KeyInfo_SecretAccessKey :: "string option"

datatype key_call =
    Call_ImportKey ImportKeyRequest
  | Call_CreateKey CreateKeyRequest
  | Call_GetKeyInfo GetKeyInfoRequest

record key_client =
  ImportKey :: "ImportKeyRequest \<Rightarrow> KeyInfo option \<times> string option"
  CreateKey :: "CreateKeyRequest \<Rightarrow> KeyInfo option \<times> string option"
  GetKeyInfo :: "GetKeyInfoRequest \<Rightarrow> KeyInfo option \<times> string option"

record KeyCreateRequest =
  KeyCreate_Plan :: KeyResourceModel

record KeyReadRequest =
  KeyRead_State :: KeyResourceModel

record KeyUpdateRequest =
  KeyUpdate_Plan :: KeyResourceModel

definition name_ptr :: "types_String \<Rightarrow> string option" where
  "name_ptr n = (if \<not> IsNull n then Some (ValueString n) else None)"

definition KeyResource_Create ::
  "key_client \<Rightarrow> KeyCreateRequest \<Rightarrow> KeyResourceModel Response
     \<Rightarrow> key_call list \<times> KeyResourceModel Response outcome" where
  "KeyResource_Create client req resp =
    (let data = KeyCreate_Plan req in
     if HasError (Diagnostics resp) then ([], Returns resp)
     else
       let hasID = (\<not> IsNull (Key_ID data) \<and> \<not> IsUnknown (Key_ID data));
           hasSecret = (\<not> IsNull (Key_SecretAccessKey data) \<and> \<not> IsUnknown (Key_SecretAccessKey data))
       in
       if hasID \<and> hasSecret then
         (let importReq = \<lparr>ImportKey_AccessKeyID = ValueString (Key_ID data),
                            ImportKey_SecretAccessKey = ValueString (Key_SecretAccessKey data),
                            ImportKey_Name = name_ptr (Key_Name data)\<rparr>
          in case ImportKey client importReq of (key, err) \<Rightarrow>
               (case err of
                  Some e \<Rightarrow>
                    ([Call_ImportKey importReq],
                     Returns (Diagnostics_AddError ''Client Error''
                                (''Unable to import access key, got error: '' @ e) resp))
                | None \<Rightarrow>
                    (case key of
                       None \<Rightarrow> ([Call_ImportKey importReq], Panics)
                     | Some k \<Rightarrow>
                         ([Call_ImportKey importReq],
                          Returns (State_Set
                            (data\<lparr>Key_ID := Value (KeyInfo_AccessKeyID k),
                                  Key_Name := Value (KeyInfo_Name k),
                                  Key_SecretAccessKey := Value (ValueString (Key_SecretAccessKey data))\<rparr>)
                            resp)))))
       else if \<not> hasID \<and> \<not> hasSecret then
         (let createReq = \<lparr>CreateKey_Name = name_ptr (Key_Name data)\<rparr>
          in case CreateKey client createReq of (key, err) \<Rightarrow>
               (case err of
                  Some e \<Rightarrow>
                    ([Call_CreateKey createReq],
                     Returns (Diagnostics_AddError ''Client Error''
                                (''Unable to create access key, got error: '' @ e) resp))
                | None \<Rightarrow>
                    (case key of
                       None \<Rightarrow> ([Call_CreateKey createReq], Panics)
                     | Some k \<Rightarrow>
                         ([Call_CreateKey createReq],
                          Returns (State_Set
                            (let data1 = data\<lparr>Key_ID := Value (KeyInfo_AccessKeyID k),
                                               Key_Name := Value (KeyInfo_Name k)\<rparr>
                             in case KeyInfo_SecretAccessKey k of
                                  Some secret \<Rightarrow> data1\<lparr>Key_SecretAccessKey := Value secret\<rparr>
                                | None \<Rightarrow> data1)
                            resp)))))
       else
         ([], Returns (Diagnostics_AddError ''Invalid Configuration''
            ''Both 'id' and 'secret_access_key' must be provided together when importing a key, or neither should be provided to generate a new key.''
            resp)))"

definition KeyResource_Read ::
  "key_client \<Rightarrow> KeyReadRequest \<Rightarrow> KeyResourceModel Response
     \<Rightarrow> key_call list \<times> KeyResourceModel Response outcome" where
  "KeyResource_Read client req resp =
    (let data = KeyRead_State req in
     if HasError (Diagnostics resp) then ([], Returns resp)
     else
       let keyID = ValueString (Key_ID data);
           getReq = \<lparr>GetKeyInfo_ID = keyID\<rparr>
       in case GetKeyInfo client getReq of (key, err) \<Rightarrow>
            (case err of
               Some e \<Rightarrow>
                 ([Call_GetKeyInfo getReq],
                  Returns (Diagnostics_AddError ''Client Error''
                             (''Unable to read access key, got error: '' @ e) resp))
             | None \<Rightarrow>
                 (case key of
                    None \<Rightarrow> ([Call_GetKeyInfo getReq], Returns (RemoveResource resp))
                  | Some k \<Rightarrow>
                      ([Call_GetKeyInfo getReq],
                       Returns (State_Set
                         (data\<lparr>Key_ID := Value (KeyInfo_AccessKeyID k),
                               Key_Name := Value (KeyInfo_Name k)\<rparr>)
                         resp)))))"

definition KeyResource_Update ::
  "key_client \<Rightarrow> KeyUpdateRequest \<Rightarrow> KeyResourceModel Response
     \<Rightarrow> key_call list \<times> KeyResourceModel Response outcome" where
  "KeyResource_Update client req resp =
    (let data = KeyUpdate_Plan req in
     if HasError (Diagnostics resp) then ([], Returns resp)
     else ([], Returns (State_Set data resp)))"

section \<open>Go's string functions\<close>

text \<open>
  The functions of Go's package \<^verbatim>\<open>strings\<close> that the provider calls, for a separator that
  is not empty. \<^verbatim>\<open>Index(s, sep)\<close> is the offset of the first place where \<open>sep\<close> occurs in
  \<open>s\<close> (Go returns -1 where the model returns \<open>None\<close>). \<^verbatim>\<open>SplitN(s, sep, n)\<close> cuts \<open>s\<close> at
  the first \<open>n - 1\<close> separators and keeps the rest whole; \<^verbatim>\<open>Replace(s, old, new, n)\<close>
  replaces the first \<open>n\<close> occurrences.
\<close>

fun Index :: "string \<Rightarrow> string \<Rightarrow> nat option" where
  "Index [] sep = (if sep = [] then Some 0 else None)"
| "Index (c # cs) sep =
     (if prefix sep (c # cs) then Some 0 else map_option Suc (Index cs sep))"

fun SplitN :: "string \<Rightarrow> string \<Rightarrow> nat \<Rightarrow> string list" where
  "SplitN s sep 0 = []"
| "SplitN s sep (Suc 0) = [s]"
| "SplitN s sep (Suc (Suc n)) =
     (case Index s sep of
        None \<Rightarrow> [s]
      | Some m \<Rightarrow> take m s # SplitN (drop (m + length sep) s) sep (Suc n))"

fun Replace :: "string \<Rightarrow> string \<Rightarrow> string \<Rightarrow> nat \<Rightarrow> string" where
  "Replace s old new 0 = s"
| "Replace s old new (Suc n) =
     (case Index s old of
        None \<Rightarrow> s
      | Some j \<Rightarrow> take j s @ new @ Replace (drop (j + length old) s) old new n)"

section \<open>The object resource\<close>

text \<open>
  The S3 client and the file system are parameters. An S3 operation returns Go's pair of
  an output pointer and an error; the error records whether the service answered that the
  object does not exist or the operation failed otherwise (connection refused, timeout),
  and prints as its text. \<^verbatim>\<open>os.Open\<close> gives an error text or the file, which the upload
  reads to its end; a body is the string of its bytes.
\<close>

record GarageObjectResourceModel =
  Object_Bucket :: types_String
  Object_Key :: types_String
  Object_Source :: types_String
  Object_Content :: types_String
  Object_ContentType :: types_String
  Object_ETag :: types_String
  Object_ID :: types_String

datatype s3_error = NotFound string | OperationError string

fun Error :: "s3_error \<Rightarrow> string" where
  "Error (NotFound msg) = msg"
| "Error (OperationError msg) = msg"

record PutObjectInput =
  Put_Bucket :: string
  Put_Key :: string
  Put_Body :: string
  Put_ContentType :: string

record PutObjectOutput =
  Put_ETag :: "string option"

record HeadObjectInput =
  Head_Bucket :: string
  Head_Key :: string

record HeadObjectOutput =
  Head_ETag :: "string option"
  Head_ContentType :: "string option"

datatype s3_call =
    Call_PutObject PutObjectInput
  | Call_HeadObject HeadObjectInput

record object_env =
  os_Open :: "string \<Rightarrow> string + string"
  PutObject :: "PutObjectInput \<Rightarrow> PutObjectOutput option \<times> s3_error option"
  HeadObject :: "HeadObjectInput \<Rightarrow> HeadObjectOutput option \<times> s3_error option"

record ObjectCreateRequest =
  ObjectCreate_Plan :: GarageObjectResourceModel

record ObjectReadRequest =
  ObjectRead_State :: GarageObjectResourceModel

record ObjectUpdateRequest =
  ObjectUpdate_Plan :: GarageObjectResourceModel
  ObjectUpdate_State :: GarageObjectResourceModel

record ObjectImportStateRequest =
  ObjectImport_ID :: string

text \<open>
  Create first prepares the body and the content type, or leaves early with a
  diagnostic (\<open>Inl\<close>); then it uploads.
\<close>

definition GarageObjectResource_Create ::
  "object_env \<Rightarrow> ObjectCreateRequest \<Rightarrow> GarageObjectResourceModel Response
     \<Rightarrow> s3_call list \<times> GarageObjectResourceModel Response outcome" where
  "GarageObjectResource_Create env req resp =
    (let plan = ObjectCreate_Plan req in
     if HasError (Diagnostics resp) then ([], Returns resp)
     else
       let prepared =
         (if \<not> IsNull (Object_Source plan) then
            (case os_Open env (ValueString (Object_Source plan)) of
               Inl err \<Rightarrow> Inl (Diagnostics_AddError ''File Read Error'' err resp)
             | Inr file \<Rightarrow>
                 Inr (file,
                      if IsNull (Object_ContentType plan) then ''application/octet-stream''
                      else ValueString (Object_ContentType plan)))
          else if \<not> IsNull (Object_Content plan) then
            Inr (ValueString (Object_Content plan),
                 if IsNull (Object_ContentType plan) then ''text/plain''
                 else ValueString (Object_ContentType plan))
          else
            Inl (Diagnostics_AddError ''Missing Content''
                   ''Either source or content must be specified'' resp))
       in case prepared of
            Inl early \<Rightarrow> ([], Returns early)
          | Inr (body, contentType) \<Rightarrow>
              (let input = \<lparr>Put_Bucket = ValueString (Object_Bucket plan),
                            Put_Key = ValueString (Object_Key plan),
                            Put_Body = body,
                            Put_ContentType = contentType\<rparr>
               in case PutObject env input of (putOutput, err) \<Rightarrow>
                    (case err of
                       Some e \<Rightarrow>
                         ([Call_PutObject input],
                          Returns (Diagnostics_AddError ''Object Upload Failed'' (Error e) resp))
                     | None \<Rightarrow>
                         (case putOutput of
                            None \<Rightarrow> ([Call_PutObject input], Panics)
                          | Some out \<Rightarrow>
                              (case Put_ETag out of
                                 None \<Rightarrow> ([Call_PutObject input], Panics)
                               | Some etag \<Rightarrow>
                                   ([Call_PutObject input],
                                    Returns (State_Set
                                      (plan\<lparr>Object_ID := Value (ValueString (Object_Bucket plan) @ ''/'' @
                                                                ValueString (Object_Key plan)),
                                            Object_ETag := Value etag,
                                            Object_ContentType := Value contentType\<rparr>)
                                      resp)))))))"

definition GarageObjectResource_Read ::
  "object_env \<Rightarrow> ObjectReadRequest \<Rightarrow> GarageObjectResourceModel Response
     \<Rightarrow> s3_call list \<times> GarageObjectResourceModel Response outcome" where
  "GarageObjectResource_Read env req resp =
    (let state = ObjectRead_State req in
     if HasError (Diagnostics resp) then ([], Returns resp)
     else
       let input = \<lparr>Head_Bucket = ValueString (Object_Bucket state),
                     Head_Key = ValueString (Object_Key state)\<rparr>
       in case HeadObject env input of (headOutput, err) \<Rightarrow>
            (case err of
               Some e \<Rightarrow> ([Call_HeadObject input], Returns (RemoveResource resp))
             | None \<Rightarrow>
                 (case headOutput of
                    None \<Rightarrow> ([Call_HeadObject input], Panics)
                  | Some out \<Rightarrow>
                      (case Head_ETag out of
                         None \<Rightarrow> ([Call_HeadObject input], Panics)
                       | Some etag \<Rightarrow>
                           (let state1 = state\<lparr>Object_ETag := Value etag\<rparr>;
                                state2 = (case Head_ContentType out of
                                            Some ct \<Rightarrow> state1\<lparr>Object_ContentType := Value ct\<rparr>
                                          | None \<Rightarrow> state1)
                            in ([Call_HeadObject input], Returns (State_Set state2 resp)))))))"

text \<open>
  Update calls Create with a create request built from the plan, and with the update
  response reinterpreted as a create response through \<^verbatim>\<open>unsafe.Pointer\<close>. The framework's
  \<^verbatim>\<open>CreateResponse\<close> and \<^verbatim>\<open>UpdateResponse\<close> declare the same fields in the same order, so
  Create's writes to State and Diagnostics land in the update response; the model has one
  response record for every lifecycle step.
\<close>

definition GarageObjectResource_Update ::
  "object_env \<Rightarrow> ObjectUpdateRequest \<Rightarrow> GarageObjectResourceModel Response
     \<Rightarrow> s3_call list \<times> GarageObjectResourceModel Response outcome" where
  "GarageObjectResource_Update env req resp =
     GarageObjectResource_Create env \<lparr>ObjectCreate_Plan = ObjectUpdate_Plan req\<rparr> resp"

text \<open>
  \<^verbatim>\<open>resp.State.SetAttribute\<close> writes one attribute; on a null state the other attributes
  start as null.
\<close>

definition null_object :: GarageObjectResourceModel where
  "null_object =
     \<lparr>Object_Bucket = Null, Object_Key = Null, Object_Source = Null, Object_Content = Null,
      Object_ContentType = Null, Object_ETag = Null, Object_ID = Null\<rparr>"

definition State_SetAttribute ::
  "(GarageObjectResourceModel \<Rightarrow> GarageObjectResourceModel)
     \<Rightarrow> GarageObjectResourceModel Response \<Rightarrow> GarageObjectResourceModel Response" where
  "State_SetAttribute upd resp =
     resp\<lparr>State := Some (upd (case State resp of None \<Rightarrow> null_object | Some st \<Rightarrow> st))\<rparr>"

definition GarageObjectResource_ImportState ::
  "ObjectImportStateRequest \<Rightarrow> GarageObjectResourceModel Response
     \<Rightarrow> GarageObjectResourceModel Response" where
  "GarageObjectResource_ImportState req resp =
    (let parts = SplitN (ObjectImport_ID req) ''/'' 2 in
     if length parts \<noteq> 2 then
       Diagnostics_AddError ''Invalid Import ID''
         (''Expected import ID in format 'bucket/key', got: '' @ ObjectImport_ID req) resp
     else
       let bucket = parts ! 0;
           key = parts ! 1;
           resp1 = State_SetAttribute (\<lambda>st. st\<lparr>Object_Bucket := Value bucket\<rparr>) resp;
           resp2 = State_SetAttribute (\<lambda>st. st\<lparr>Object_Key := Value key\<rparr>) resp1
       in State_SetAttribute (\<lambda>st. st\<lparr>Object_ID := Value (ObjectImport_ID req)\<rparr>) resp2)"

section \<open>The bucket data source\<close>

text \<open>
  The request and the bucket record of the admin client, with the fields that Read uses.
  \<open>populate\<close> is the part of Read that copies the bucket into the data model.
\<close>

record BucketDataSourceModel =
  Bucket_ID :: types_String
  Bucket_GlobalAlias :: types_String
  Bucket_GlobalAliases :: "types_String list tfvalue"
  Bucket_WebsiteEnabled :: types_Bool
  Bucket_WebsiteIndex :: types_String
  Bucket_WebsiteError :: types_String
  Bucket_MaxSize :: types_Int64
  Bucket_MaxObjects :: types_Int64
  Bucket_Objects :: types_Int64
  Bucket_Bytes :: types_Int64
  Bucket_UnfinishedUploads :: types_Int64

record GetBucketInfoRequest =
  GetBucketInfo_ID :: "string option"
  GetBucketInfo_GlobalAlias :: "string option"

record WebsiteConfig =
  IndexDocument :: string
  ErrorDocument :: string

record Quotas =
  MaxSize :: "64 word option"
  MaxObjects :: "64 word option"

record BucketInfo =
  Info_ID :: string
  Info_GlobalAliases :: "string list"
  Info_WebsiteAccess :: bool
  Info_WebsiteConfig :: "WebsiteConfig option"
  Info_Quotas :: "Quotas option"
  Info_Objects :: "64 word"
  Info_Bytes :: "64 word"
  Info_UnfinishedUploads :: "64 word"

datatype bucket_call = Call_GetBucketInfo GetBucketInfoRequest

record bucket_client =
  GetBucketInfo :: "GetBucketInfoRequest \<Rightarrow> BucketInfo option \<times> string option"

record BucketReadRequest =
  BucketRead_Config :: BucketDataSourceModel

definition populate :: "BucketInfo \<Rightarrow> BucketDataSourceModel \<Rightarrow> BucketDataSourceModel" where
  "populate bucket data =
    (let data1 = data\<lparr>Bucket_ID := Value (Info_ID bucket)\<rparr>;
         data2 = (case Info_GlobalAliases bucket of
                    first # rest \<Rightarrow>
                      data1\<lparr>Bucket_GlobalAlias := Value first,
                             Bucket_GlobalAliases := Value (map Value (Info_GlobalAliases bucket))\<rparr>
                  | [] \<Rightarrow>
                      data1\<lparr>Bucket_GlobalAlias := Null, Bucket_GlobalAliases := Value []\<rparr>);
         data3 = data2\<lparr>Bucket_WebsiteEnabled := Value (Info_WebsiteAccess bucket)\<rparr>;
         data4 = (case Info_WebsiteConfig bucket of
                    Some w \<Rightarrow> data3\<lparr>Bucket_WebsiteIndex := Value (IndexDocument w),
                                     Bucket_WebsiteError := Value (ErrorDocument w)\<rparr>
                  | None \<Rightarrow> data3\<lparr>Bucket_WebsiteIndex := Null, Bucket_WebsiteError := Null\<rparr>);
         data5 = (case Info_Quotas bucket of
                    Some q \<Rightarrow>
                      data4\<lparr>Bucket_MaxSize := (case MaxSize q of Some n \<Rightarrow> Value n | None \<Rightarrow> Null),
                             Bucket_MaxObjects := (case MaxObjects q of Some n \<Rightarrow> Value n | None \<Rightarrow> Null)\<rparr>
                  | None \<Rightarrow> data4\<lparr>Bucket_MaxSize := Null, Bucket_MaxObjects := Null\<rparr>)
     in data5\<lparr>Bucket_Objects := Value (Info_Objects bucket),
               Bucket_Bytes := Value (Info_Bytes bucket),
               Bucket_UnfinishedUploads := Value (Info_UnfinishedUploads bucket)\<rparr>)"

definition BucketDataSource_Read ::
  "bucket_client \<Rightarrow> BucketReadRequest \<Rightarrow> BucketDataSourceModel Response
     \<Rightarrow> bucket_call list \<times> BucketDataSourceModel Response outcome" where
  "BucketDataSource_Read client req resp =
    (let data = BucketRead_Config req in
     if HasError (Diagnostics resp) then ([], Returns resp)
     else if IsNull (Bucket_ID data) \<and> IsNull (Bucket_GlobalAlias data) then
       ([], Returns (Diagnostics_AddError ''Missing Required Attribute''
                       ''Either 'id' or 'global_alias' must be specified.'' resp))
     else
       let getBucketReq =
             \<lparr>GetBucketInfo_ID =
                (if \<not> IsNull (Bucket_ID data) then Some (ValueString (Bucket_ID data)) else None),
              GetBucketInfo_GlobalAlias =
                (if \<not> IsNull (Bucket_GlobalAlias data)
                 then Some (ValueString (Bucket_GlobalAlias data)) else None)\<rparr>
       in case GetBucketInfo client getBucketReq of (bucket, err) \<Rightarrow>
            (case err of
               Some e \<Rightarrow>
                 ([Call_GetBucketInfo getBucketReq],
                  Returns (Diagnostics_AddError ''Client Error''
                             (''Unable to read bucket, got error: '' @ e) resp))
             | None \<Rightarrow>
                 (case bucket of
                    None \<Rightarrow>
                      ([Call_GetBucketInfo getBucketReq],
                       Returns (Diagnostics_AddError ''Bucket Not Found''
                                  ''The specified bucket could not be found.'' resp))
                  | Some b \<Rightarrow>
                      ([Call_GetBucketInfo getBucketReq],
                       Returns (State_Set (populate b data) resp)))))"

section \<open>The provider\<close>

text \<open>
  The environment (\<^verbatim>\<open>os.Getenv\<close>) is a parameter. Configure leaves the provider data for
  the data sources and for the resources in its response.
\<close>

record EndpointsModel =
  Endpoints_Admin :: types_String
  Endpoints_S3 :: types_String

record GarageProviderModel =
  Provider_Endpoint :: types_String
  Provider_Token :: types_String
  Provider_Endpoints :: "EndpointsModel option"
  Provider_AccessKey :: types_String
  Provider_SecretKey :: types_String

record ConfigureRequest =
  Configure_Config :: GarageProviderModel

record ConfigureResponse =
  DataSourceData :: "GarageProviderModel option"
  ResourceData :: "GarageProviderModel option"
  Configure_Diagnostics :: "diagnostic list"

definition replacePort :: "string \<Rightarrow> string \<Rightarrow> string \<Rightarrow> string" where
  "replacePort endpoint oldPort newPort = Replace endpoint ('':'' @ oldPort) ('':'' @ newPort) 1"

definition GarageProvider_Configure ::
  "(string \<Rightarrow> string) \<Rightarrow> ConfigureRequest \<Rightarrow> ConfigureResponse \<Rightarrow> ConfigureResponse" where
  "GarageProvider_Configure Getenv req resp =
    (let config = Configure_Config req in
     if HasError (Configure_Diagnostics resp) then resp
     else
       let (adminEndpoint0, s3Endpoint0) =
             (case Provider_Endpoints config of
                Some endpoints \<Rightarrow>
                  (if \<not> IsNull (Endpoints_Admin endpoints)
                   then ValueString (Endpoints_Admin endpoints) else [],
                   if \<not> IsNull (Endpoints_S3 endpoints)
                   then ValueString (Endpoints_S3 endpoints) else [])
              | None \<Rightarrow> ([], []));
           (adminEndpoint, s3Endpoint) =
             (if adminEndpoint0 = [] \<and> \<not> IsNull (Provider_Endpoint config) then
                (ValueString (Provider_Endpoint config),
                 if s3Endpoint0 = []
                 then replacePort (ValueString (Provider_Endpoint config)) ''3903'' ''3900''
                 else s3Endpoint0)
              else (adminEndpoint0, s3Endpoint0));
           accessKey = (if ValueString (Provider_AccessKey config) = []
                        then Getenv ''GARAGE_ACCESS_KEY''
                        else ValueString (Provider_AccessKey config));
           secretKey = (if ValueString (Provider_SecretKey config) = []
                        then Getenv ''GARAGE_SECRET_KEY''
                        else ValueString (Provider_SecretKey config))
       in
       if adminEndpoint = [] then
         resp\<lparr>Configure_Diagnostics :=
                AddError ''Missing Admin Endpoint''
                  ''Either 'endpoints.admin' or deprecated 'endpoint' must be configured''
                  (Configure_Diagnostics resp)\<rparr>
       else
         let providerData =
               \<lparr>Provider_Endpoint = Value adminEndpoint,
                Provider_Token = Provider_Token config,
                Provider_Endpoints = Some \<lparr>Endpoints_Admin = Value adminEndpoint,
                                           Endpoints_S3 = Value s3Endpoint\<rparr>,
                Provider_AccessKey = Value accessKey,
                Provider_SecretKey = Value secretKey\<rparr>
         in resp\<lparr>DataSourceData := Some providerData, ResourceData := Some providerData\<rparr>)"

section \<open>Example clients and inputs\<close>

text \<open>
  Concrete clients, environments and inputs on which the properties below are run: a
  key client that knows one key and cannot reach another, an S3 service with a bucket that
  is offline and an object that is gone, an admin client with one bucket, and a provider
  configuration in the deprecated form. A fresh response holds no diagnostics.
\<close>

definition demo_key_client :: key_client where
  "demo_key_client =
     \<lparr>ImportKey = (\<lambda>r. (Some \<lparr>KeyInfo_AccessKeyID = ImportKey_AccessKeyID r,
                               KeyInfo_Name = ''imported'', KeyInfo_SecretAccessKey = None\<rparr>, None)),
      CreateKey = (\<lambda>r. (Some \<lparr>KeyInfo_AccessKeyID = ''GK0001'',
                               KeyInfo_Name = ''fresh'', KeyInfo_SecretAccessKey = Some ''s3cr3t''\<rparr>, None)),
      GetKeyInfo = (\<lambda>r. if GetKeyInfo_ID r = ''GK0001''
                           then (Some \<lparr>KeyInfo_AccessKeyID = ''GK0001'', KeyInfo_Name = ''renamed'',
                                       KeyInfo_SecretAccessKey = None\<rparr>, None)
                         else if GetKeyInfo_ID r = ''GKdown'' then (None, Some ''connection refused'')
                         else (None, None))\<rparr>"

definition fresh_Response :: "'s option \<Rightarrow> 's Response" where
  "fresh_Response st = \<lparr>State = st, Diagnostics = []\<rparr>"

definition demo_object_env :: object_env where
  "demo_object_env =
     \<lparr>os_Open = (\<lambda>path. if path = ''data.json'' then Inr ''[1, 2, 3]''
                        else Inl (''open '' @ path @ '': no such file or directory'')),
      PutObject = (\<lambda>input. if Put_Bucket input = ''offline''
                            then (None, Some (OperationError ''connection refused''))
                            else (Some \<lparr>Put_ETag = Some ''etag-1''\<rparr>, None)),
      HeadObject = (\<lambda>input. if Head_Bucket input = ''offline''
                             then (None, Some (OperationError ''connection refused''))
                             else if Head_Key input = ''gone.txt''
                             then (None, Some (NotFound ''NotFound''))
                             else (Some \<lparr>Head_ETag = Some ''etag-1'',
                                         Head_ContentType = Some ''text/plain''\<rparr>, None))\<rparr>"

definition demo_object :: GarageObjectResourceModel where
  "demo_object =
     \<lparr>Object_Bucket = Value ''media'', Object_Key = Value ''hello.txt'', Object_Source = Null,
      Object_Content = Value ''Hello, Garage!'', Object_ContentType = Null,
      Object_ETag = Unknown, Object_ID = Unknown\<rparr>"

definition demo_bucket_info :: BucketInfo where
  "demo_bucket_info =
     \<lparr>Info_ID = ''b1'', Info_GlobalAliases = [''my-bucket''], Info_WebsiteAccess = False,
      Info_WebsiteConfig = None, Info_Quotas = None, Info_Objects = 0, Info_Bytes = 0,
      Info_UnfinishedUploads = 0\<rparr>"

definition demo_bucket_client :: bucket_client where
  "demo_bucket_client =
     \<lparr>GetBucketInfo = (\<lambda>r. if GetBucketInfo_ID r = Some ''down'' then (None, Some ''connection refused'')
                            else if GetBucketInfo_ID r = Some ''b1'' \<or> GetBucketInfo_GlobalAlias r = Some ''my-bucket''
                            then (Some demo_bucket_info, None)
                            else (None, None))\<rparr>"

definition demo_bucket_config :: BucketDataSourceModel where
  "demo_bucket_config =
     \<lparr>Bucket_ID = Null, Bucket_GlobalAlias = Null, Bucket_GlobalAliases = Null,
      Bucket_WebsiteEnabled = Null, Bucket_WebsiteIndex = Null, Bucket_WebsiteError = Null,
      Bucket_MaxSize = Null, Bucket_MaxObjects = Null, Bucket_Objects = Null, Bucket_Bytes = Null,
      Bucket_UnfinishedUploads = Null\<rparr>"

definition demo_provider_config :: GarageProviderModel where
  "demo_provider_config =
     \<lparr>Provider_Endpoint = Value ''http://localhost:3903'', Provider_Token = Value ''admin-token'',
      Provider_Endpoints = None, Provider_AccessKey = Null, Provider_SecretKey = Null\<rparr>"

definition demo_Getenv :: "string \<Rightarrow> string" where
  "demo_Getenv name = (if name = ''GARAGE_ACCESS_KEY'' then ''GK123'' else [])"

definition fresh_ConfigureResponse :: ConfigureResponse where
  "fresh_ConfigureResponse = \<lparr>DataSourceData = None, ResourceData = None, Configure_Diagnostics = []\<rparr>"

section \<open>Properties\<close>

subsection \<open>Diagnostics\<close>

lemma AddError_fresh: "\<not> HasError ds \<Longrightarrow> AddError s d ds = ds @ [ErrorDiagnostic s d]"
  by (induction ds) (auto simp: HasError_def AddError_def)

lemma HasError_AddError: "HasError (AddError s d ds)"
  by (induction ds) (auto simp: HasError_def AddError_def)

lemma AddError_member: "ErrorDiagnostic s d \<in> set (AddError s d ds)"
  by (simp add: AddError_def)

subsection \<open>Go's string functions\<close>

lemma Index_absent: "c \<notin> set s \<Longrightarrow> Index s [c] = None"
  by (induction s) auto

lemma Index_first_char: "c \<notin> set b \<Longrightarrow> Index (b @ c # k) [c] = Some (length b)"
  by (induction b) auto

lemma Index_Some_occurs:
  "Index s sep = Some j \<Longrightarrow> s = take j s @ sep @ drop (j + length sep) s"
proof (induction s arbitrary: j)
  case Nil
  then show ?case by (simp split: if_splits)
next
  case (Cons c cs)
  show ?case
  proof (cases "prefix sep (c # cs)")
    case True
    with Cons.prems have "j = 0" by simp
    with True show ?thesis by (auto simp: prefix_def)
  next
    case False
    with Cons.prems obtain i where i: "Index cs sep = Some i" "j = Suc i" by auto
    from Cons.IH [OF i(1)] i(2) show ?thesis by simp
  qed
qed

lemma Index_Some_first:
  "Index s sep = Some j \<Longrightarrow> i < j \<Longrightarrow> \<not> prefix sep (drop i s)"
proof (induction s arbitrary: i j)
  case Nil
  then show ?case by (simp split: if_splits)
next
  case (Cons c cs)
  show ?case
  proof (cases "prefix sep (c # cs)")
    case True
    with Cons.prems show ?thesis by simp
  next
    case False
    with Cons.prems obtain k where k: "Index cs sep = Some k" "j = Suc k" by auto
    show ?thesis
    proof (cases i)
      case 0
      with False show ?thesis by simp
    next
      case (Suc i')
      with Cons.prems k have "i' < k" by simp
      from Cons.IH [OF k(1) this] Suc show ?thesis by simp
    qed
  qed
qed

lemma Index_None_absent:
  "Index s sep = None \<Longrightarrow> \<not> prefix sep (drop i s)"
proof (induction s arbitrary: i)
  case Nil
  then show ?case by (simp split: if_splits)
next
  case (Cons c cs)
  then have np: "\<not> prefix sep (c # cs)" and rest: "Index cs sep = None"
    by (auto split: if_splits)
  show ?case
  proof (cases i)
    case 0
    with np show ?thesis by simp
  next
    case (Suc i')
    with Cons.IH [OF rest] show ?thesis by simp
  qed
qed

lemma split_at_first: "c \<in> set s \<Longrightarrow> \<exists>b k. s = b @ c # k \<and> c \<notin> set b"
  by (metis split_list_first)

subsection \<open>The access key resource\<close>

text \<open>
  C2. Key resource Create, started on a response without errors. When exactly one of
  \<open>id\<close> and \<open>secret_access_key\<close> is a known value in the plan, no client call is made
  and the step ends with the error "Invalid Configuration". When both are known, the one
  call made is ImportKey with that id and secret; when neither is known, the one call made
  is CreateKey. A null or unknown attribute counts as not supplied.
\<close>

theorem KeyResource_Create_entry_paths:
  assumes "\<not> HasError (Diagnostics resp)"
  shows "((\<exists>i. Key_ID (KeyCreate_Plan req) = Value i) \<noteq> (\<exists>s. Key_SecretAccessKey (KeyCreate_Plan req) = Value s)
           \<longrightarrow> KeyResource_Create client req resp =
                 ([], Returns (resp\<lparr>Diagnostics := Diagnostics resp @ [ErrorDiagnostic ''Invalid Configuration''
                    ''Both 'id' and 'secret_access_key' must be provided together when importing a key, or neither should be provided to generate a new key.'']\<rparr>)))
       \<and> (\<forall>i s. Key_ID (KeyCreate_Plan req) = Value i \<and> Key_SecretAccessKey (KeyCreate_Plan req) = Value s
           \<longrightarrow> fst (KeyResource_Create client req resp) =
                 [Call_ImportKey \<lparr>ImportKey_AccessKeyID = i, ImportKey_SecretAccessKey = s,
                                  ImportKey_Name = name_ptr (Key_Name (KeyCreate_Plan req))\<rparr>])
       \<and> ((\<nexists>i. Key_ID (KeyCreate_Plan req) = Value i) \<and> (\<nexists>s. Key_SecretAccessKey (KeyCreate_Plan req) = Value s)
           \<longrightarrow> fst (KeyResource_Create client req resp) =
                 [Call_CreateKey \<lparr>CreateKey_Name = name_ptr (Key_Name (KeyCreate_Plan req))\<rparr>])"
proof -
  obtain kid where kid: "Key_ID (KeyCreate_Plan req) = kid" by simp
  obtain sec where sec: "Key_SecretAccessKey (KeyCreate_Plan req) = sec" by simp
  show ?thesis
    using assms
    by (cases kid; cases sec)
       (auto simp: KeyResource_Create_def Let_def kid sec Diagnostics_AddError_def AddError_fresh
             split: prod.splits option.splits)
qed

theorem KeyResource_Create_entry_paths_witness:
  "KeyResource_Create demo_key_client
      \<lparr>KeyCreate_Plan = \<lparr>Key_ID = Value ''GK0002'', Key_Name = Value ''n'', Key_SecretAccessKey = Null\<rparr>\<rparr>
      (fresh_Response None)
    = ([], Returns \<lparr>State = None, Diagnostics = [ErrorDiagnostic ''Invalid Configuration''
         ''Both 'id' and 'secret_access_key' must be provided together when importing a key, or neither should be provided to generate a new key.'']\<rparr>)
   \<and> fst (KeyResource_Create demo_key_client
      \<lparr>KeyCreate_Plan = \<lparr>Key_ID = Value ''GK0002'', Key_Name = Value ''n'', Key_SecretAccessKey = Value ''abc''\<rparr>\<rparr>
      (fresh_Response None))
    = [Call_ImportKey \<lparr>ImportKey_AccessKeyID = ''GK0002'', ImportKey_SecretAccessKey = ''abc'',
                       ImportKey_Name = Some ''n''\<rparr>]
   \<and> fst (KeyResource_Create demo_key_client
      \<lparr>KeyCreate_Plan = \<lparr>Key_ID = Unknown, Key_Name = Null, Key_SecretAccessKey = Unknown\<rparr>\<rparr>
      (fresh_Response None))
    = [Call_CreateKey \<lparr>CreateKey_Name = None\<rparr>]"
  using KeyResource_Create_entry_paths [of "fresh_Response None"
          "\<lparr>KeyCreate_Plan = \<lparr>Key_ID = Value ''GK0002'', Key_Name = Value ''n'', Key_SecretAccessKey = Null\<rparr>\<rparr>"
          demo_key_client]
        KeyResource_Create_entry_paths [of "fresh_Response None"
          "\<lparr>KeyCreate_Plan = \<lparr>Key_ID = Value ''GK0002'', Key_Name = Value ''n'', Key_SecretAccessKey = Value ''abc''\<rparr>\<rparr>"
          demo_key_client]
        KeyResource_Create_entry_paths [of "fresh_Response None"
          "\<lparr>KeyCreate_Plan = \<lparr>Key_ID = Unknown, Key_Name = Null, Key_SecretAccessKey = Unknown\<rparr>\<rparr>"
          demo_key_client]
  by (simp add: fresh_Response_def HasError_def name_ptr_def)

text \<open>
  C3. Key resource Read, started on a response without errors. When GetKeyInfo returns
  an error, the step ends with the diagnostic "Client Error" carrying the error's text and
  the state is left as it was. When GetKeyInfo returns a nil key and no error, the state
  is removed and no diagnostic is added.
\<close>

theorem KeyResource_Read_not_found_drops_state:
  assumes "\<not> HasError (Diagnostics resp)"
  shows "(\<forall>key err. GetKeyInfo client \<lparr>GetKeyInfo_ID = ValueString (Key_ID (KeyRead_State req))\<rparr> = (key, Some err)
            \<longrightarrow> KeyResource_Read client req resp =
                  ([Call_GetKeyInfo \<lparr>GetKeyInfo_ID = ValueString (Key_ID (KeyRead_State req))\<rparr>],
                   Returns (resp\<lparr>Diagnostics := Diagnostics resp @
                      [ErrorDiagnostic ''Client Error'' (''Unable to read access key, got error: '' @ err)]\<rparr>)))
       \<and> (GetKeyInfo client \<lparr>GetKeyInfo_ID = ValueString (Key_ID (KeyRead_State req))\<rparr> = (None, None)
            \<longrightarrow> KeyResource_Read client req resp =
                  ([Call_GetKeyInfo \<lparr>GetKeyInfo_ID = ValueString (Key_ID (KeyRead_State req))\<rparr>],
                   Returns (resp\<lparr>State := None\<rparr>)))"
  using assms
  by (simp add: KeyResource_Read_def Let_def Diagnostics_AddError_def AddError_fresh RemoveResource_def)

theorem KeyResource_Read_not_found_drops_state_witness:
  "KeyResource_Read demo_key_client
      \<lparr>KeyRead_State = \<lparr>Key_ID = Value ''GKdown'', Key_Name = Value ''n'', Key_SecretAccessKey = Value ''abc''\<rparr>\<rparr>
      (fresh_Response (Some \<lparr>Key_ID = Value ''GKdown'', Key_Name = Value ''n'', Key_SecretAccessKey = Value ''abc''\<rparr>))
    = ([Call_GetKeyInfo \<lparr>GetKeyInfo_ID = ''GKdown''\<rparr>],
       Returns \<lparr>State = Some \<lparr>Key_ID = Value ''GKdown'', Key_Name = Value ''n'', Key_SecretAccessKey = Value ''abc''\<rparr>,
                Diagnostics = [ErrorDiagnostic ''Client Error'' ''Unable to read access key, got error: connection refused'']\<rparr>)
   \<and> KeyResource_Read demo_key_client
      \<lparr>KeyRead_State = \<lparr>Key_ID = Value ''GKgone'', Key_Name = Value ''n'', Key_SecretAccessKey = Value ''abc''\<rparr>\<rparr>
      (fresh_Response (Some \<lparr>Key_ID = Value ''GKgone'', Key_Name = Value ''n'', Key_SecretAccessKey = Value ''abc''\<rparr>))
    = ([Call_GetKeyInfo \<lparr>GetKeyInfo_ID = ''GKgone''\<rparr>], Returns \<lparr>State = None, Diagnostics = []\<rparr>)"
  using KeyResource_Read_not_found_drops_state [of
          "fresh_Response (Some \<lparr>Key_ID = Value ''GKdown'', Key_Name = Value ''n'', Key_SecretAccessKey = Value ''abc''\<rparr>)"
          demo_key_client
          "\<lparr>KeyRead_State = \<lparr>Key_ID = Value ''GKdown'', Key_Name = Value ''n'', Key_SecretAccessKey = Value ''abc''\<rparr>\<rparr>"]
        KeyResource_Read_not_found_drops_state [of
          "fresh_Response (Some \<lparr>Key_ID = Value ''GKgone'', Key_Name = Value ''n'', Key_SecretAccessKey = Value ''abc''\<rparr>)"
          demo_key_client
          "\<lparr>KeyRead_State = \<lparr>Key_ID = Value ''GKgone'', Key_Name = Value ''n'', Key_SecretAccessKey = Value ''abc''\<rparr>\<rparr>"]
  by (simp add: fresh_Response_def HasError_def demo_key_client_def)

text \<open>
  C4. Key resource Read that finds the key: the new state has the id and the name of the
  GetKeyInfo response, and the secret access key of the prior state, whatever the response
  holds in its own secret field.
\<close>

theorem KeyResource_Read_keeps_secret:
  assumes "\<not> HasError (Diagnostics resp)"
    and "GetKeyInfo client \<lparr>GetKeyInfo_ID = ValueString (Key_ID (KeyRead_State req))\<rparr> = (Some key, None)"
  shows "KeyResource_Read client req resp =
           ([Call_GetKeyInfo \<lparr>GetKeyInfo_ID = ValueString (Key_ID (KeyRead_State req))\<rparr>],
            Returns (resp\<lparr>State := Some \<lparr>Key_ID = Value (KeyInfo_AccessKeyID key),
                                          Key_Name = Value (KeyInfo_Name key),
                                          Key_SecretAccessKey = Key_SecretAccessKey (KeyRead_State req)\<rparr>\<rparr>))"
  using assms
  by (cases "KeyRead_State req") (simp add: KeyResource_Read_def Let_def State_Set_def)

theorem KeyResource_Read_keeps_secret_witness:
  "KeyResource_Read demo_key_client
      \<lparr>KeyRead_State = \<lparr>Key_ID = Value ''GK0001'', Key_Name = Value ''fresh'', Key_SecretAccessKey = Value ''s3cr3t''\<rparr>\<rparr>
      (fresh_Response (Some \<lparr>Key_ID = Value ''GK0001'', Key_Name = Value ''fresh'', Key_SecretAccessKey = Value ''s3cr3t''\<rparr>))
    = ([Call_GetKeyInfo \<lparr>GetKeyInfo_ID = ''GK0001''\<rparr>],
       Returns \<lparr>State = Some \<lparr>Key_ID = Value ''GK0001'', Key_Name = Value ''renamed'', Key_SecretAccessKey = Value ''s3cr3t''\<rparr>,
                Diagnostics = []\<rparr>)"
  using KeyResource_Read_keeps_secret [of
          "fresh_Response (Some \<lparr>Key_ID = Value ''GK0001'', Key_Name = Value ''fresh'', Key_SecretAccessKey = Value ''s3cr3t''\<rparr>)"
          demo_key_client
          "\<lparr>KeyRead_State = \<lparr>Key_ID = Value ''GK0001'', Key_Name = Value ''fresh'', Key_SecretAccessKey = Value ''s3cr3t''\<rparr>\<rparr>"
          "\<lparr>KeyInfo_AccessKeyID = ''GK0001'', KeyInfo_Name = ''renamed'', KeyInfo_SecretAccessKey = None\<rparr>"]
  by (simp add: fresh_Response_def HasError_def demo_key_client_def)

text \<open>
  C10. Key resource Update makes no client call, and on a response without errors it
  writes the plan unchanged into the state: a new name is recorded in the state only.
\<close>

theorem KeyResource_Update_no_call:
  "fst (KeyResource_Update client req resp) = []
   \<and> (\<not> HasError (Diagnostics resp)
        \<longrightarrow> snd (KeyResource_Update client req resp) = Returns (resp\<lparr>State := Some (KeyUpdate_Plan req)\<rparr>))"
  by (simp add: KeyResource_Update_def Let_def State_Set_def)

theorem KeyResource_Update_no_call_witness:
  "KeyResource_Update demo_key_client
      \<lparr>KeyUpdate_Plan = \<lparr>Key_ID = Value ''GK0001'', Key_Name = Value ''new-name'', Key_SecretAccessKey = Value ''s3cr3t''\<rparr>\<rparr>
      (fresh_Response (Some \<lparr>Key_ID = Value ''GK0001'', Key_Name = Value ''fresh'', Key_SecretAccessKey = Value ''s3cr3t''\<rparr>))
    = ([], Returns \<lparr>State = Some \<lparr>Key_ID = Value ''GK0001'', Key_Name = Value ''new-name'', Key_SecretAccessKey = Value ''s3cr3t''\<rparr>,
                    Diagnostics = []\<rparr>)"
  using KeyResource_Update_no_call [of demo_key_client
          "\<lparr>KeyUpdate_Plan = \<lparr>Key_ID = Value ''GK0001'', Key_Name = Value ''new-name'', Key_SecretAccessKey = Value ''s3cr3t''\<rparr>\<rparr>"
          "fresh_Response (Some \<lparr>Key_ID = Value ''GK0001'', Key_Name = Value ''fresh'', Key_SecretAccessKey = Value ''s3cr3t''\<rparr>)"]
  by (cases "KeyResource_Update demo_key_client
      \<lparr>KeyUpdate_Plan = \<lparr>Key_ID = Value ''GK0001'', Key_Name = Value ''new-name'', Key_SecretAccessKey = Value ''s3cr3t''\<rparr>\<rparr>
      (fresh_Response (Some \<lparr>Key_ID = Value ''GK0001'', Key_Name = Value ''fresh'', Key_SecretAccessKey = Value ''s3cr3t''\<rparr>))")
     (simp add: fresh_Response_def HasError_def)

subsection \<open>The object resource\<close>

text \<open>
  What Create does by its branches, started on a response without errors. When the source
  is not null and the file opens, the one S3 call uploads the file's bytes, whether the
  content is set or not; when the file does not open, the step ends with "File Read Error"
  and no S3 call. When the source is null and the content is not, the one S3 call uploads
  the content. When both are null, the step ends with "Missing Content" and no S3 call.
  The content type of an upload is the default of its branch only when the planned content
  type is null; a known or unknown one is passed on by \<^verbatim>\<open>ValueString()\<close>.
\<close>

lemma Create_content_branches:
  assumes "\<not> HasError (Diagnostics resp)"
  shows "(\<forall>file. \<not> IsNull (Object_Source (ObjectCreate_Plan req))
            \<and> os_Open env (ValueString (Object_Source (ObjectCreate_Plan req))) = Inr file
          \<longrightarrow> fst (GarageObjectResource_Create env req resp) =
                [Call_PutObject
                   \<lparr>Put_Bucket = ValueString (Object_Bucket (ObjectCreate_Plan req)),
                    Put_Key = ValueString (Object_Key (ObjectCreate_Plan req)),
                    Put_Body = file,
                    Put_ContentType =
                      (if IsNull (Object_ContentType (ObjectCreate_Plan req))
                       then ''application/octet-stream''
                       else ValueString (Object_ContentType (ObjectCreate_Plan req)))\<rparr>])
       \<and> (\<forall>err. \<not> IsNull (Object_Source (ObjectCreate_Plan req))
            \<and> os_Open env (ValueString (Object_Source (ObjectCreate_Plan req))) = Inl err
          \<longrightarrow> GarageObjectResource_Create env req resp =
                ([], Returns (resp\<lparr>Diagnostics := Diagnostics resp @
                                 [ErrorDiagnostic ''File Read Error'' err]\<rparr>)))
       \<and> (IsNull (Object_Source (ObjectCreate_Plan req))
            \<and> \<not> IsNull (Object_Content (ObjectCreate_Plan req))
          \<longrightarrow> fst (GarageObjectResource_Create env req resp) =
                [Call_PutObject
                   \<lparr>Put_Bucket = ValueString (Object_Bucket (ObjectCreate_Plan req)),
                    Put_Key = ValueString (Object_Key (ObjectCreate_Plan req)),
                    Put_Body = ValueString (Object_Content (ObjectCreate_Plan req)),
                    Put_ContentType =
                      (if IsNull (Object_ContentType (ObjectCreate_Plan req))
                       then ''text/plain''
                       else ValueString (Object_ContentType (ObjectCreate_Plan req)))\<rparr>])
       \<and> (IsNull (Object_Source (ObjectCreate_Plan req))
            \<and> IsNull (Object_Content (ObjectCreate_Plan req))
          \<longrightarrow> GarageObjectResource_Create env req resp =
                ([], Returns (resp\<lparr>Diagnostics := Diagnostics resp @
                                 [ErrorDiagnostic ''Missing Content''
                                    ''Either source or content must be specified'']\<rparr>)))"
proof (intro conjI allI impI)
  fix contents
  assume "\<not> IsNull (Object_Source (ObjectCreate_Plan req))
            \<and> os_Open env (ValueString (Object_Source (ObjectCreate_Plan req))) = Inr contents"
  with assms show "fst (GarageObjectResource_Create env req resp) =
                [Call_PutObject
                   \<lparr>Put_Bucket = ValueString (Object_Bucket (ObjectCreate_Plan req)),
                    Put_Key = ValueString (Object_Key (ObjectCreate_Plan req)),
                    Put_Body = contents,
                    Put_ContentType =
                      (if IsNull (Object_ContentType (ObjectCreate_Plan req))
                       then ''application/octet-stream''
                       else ValueString (Object_ContentType (ObjectCreate_Plan req)))\<rparr>]"
    by (simp add: GarageObjectResource_Create_def Let_def split: prod.splits option.splits)
next
  fix err
  assume "\<not> IsNull (Object_Source (ObjectCreate_Plan req))
            \<and> os_Open env (ValueString (Object_Source (ObjectCreate_Plan req))) = Inl err"
  with assms show "GarageObjectResource_Create env req resp =
                ([], Returns (resp\<lparr>Diagnostics := Diagnostics resp @
                                 [ErrorDiagnostic ''File Read Error'' err]\<rparr>))"
    by (simp add: GarageObjectResource_Create_def Let_def Diagnostics_AddError_def AddError_fresh)
next
  assume "IsNull (Object_Source (ObjectCreate_Plan req))
            \<and> \<not> IsNull (Object_Content (ObjectCreate_Plan req))"
  with assms show "fst (GarageObjectResource_Create env req resp) =
                [Call_PutObject
                   \<lparr>Put_Bucket = ValueString (Object_Bucket (ObjectCreate_Plan req)),
                    Put_Key = ValueString (Object_Key (ObjectCreate_Plan req)),
                    Put_Body = ValueString (Object_Content (ObjectCreate_Plan req)),
                    Put_ContentType =
                      (if IsNull (Object_ContentType (ObjectCreate_Plan req))
                       then ''text/plain''
                       else ValueString (Object_ContentType (ObjectCreate_Plan req)))\<rparr>]"
    by (simp add: GarageObjectResource_Create_def Let_def split: prod.splits option.splits)
next
  assume "IsNull (Object_Source (ObjectCreate_Plan req))
            \<and> IsNull (Object_Content (ObjectCreate_Plan req))"
  with assms show "GarageObjectResource_Create env req resp =
                ([], Returns (resp\<lparr>Diagnostics := Diagnostics resp @
                                 [ErrorDiagnostic ''Missing Content''
                                    ''Either source or content must be specified'']\<rparr>))"
    by (simp add: GarageObjectResource_Create_def Let_def Diagnostics_AddError_def AddError_fresh)
qed

text \<open>
  C9. The content type is optional and computed, so one that the configuration leaves out
  reaches Create as unknown, not as null. Create tests it with \<^verbatim>\<open>IsNull()\<close> only: the
  upload then carries the empty content type and the state records it, in place of
  "text/plain" for a content upload and of "application/octet-stream" for a source upload.
\<close>

theorem GarageObjectResource_Create_unknown_content_type:
  "GarageObjectResource_Create demo_object_env
      \<lparr>ObjectCreate_Plan = demo_object\<lparr>Object_ContentType := Unknown\<rparr>\<rparr> (fresh_Response None)
    = ([Call_PutObject \<lparr>Put_Bucket = ''media'', Put_Key = ''hello.txt'', Put_Body = ''Hello, Garage!'',
                        Put_ContentType = []\<rparr>],
       Returns \<lparr>State = Some \<lparr>Object_Bucket = Value ''media'', Object_Key = Value ''hello.txt'',
                   Object_Source = Null, Object_Content = Value ''Hello, Garage!'',
                   Object_ContentType = Value [], Object_ETag = Value ''etag-1'',
                   Object_ID = Value ''media/hello.txt''\<rparr>,
                Diagnostics = []\<rparr>)
   \<and> GarageObjectResource_Create demo_object_env
      \<lparr>ObjectCreate_Plan = demo_object\<lparr>Object_Source := Value ''data.json'', Object_Content := Null,
                                       Object_ContentType := Unknown\<rparr>\<rparr> (fresh_Response None)
    = ([Call_PutObject \<lparr>Put_Bucket = ''media'', Put_Key = ''hello.txt'', Put_Body = ''[1, 2, 3]'',
                        Put_ContentType = []\<rparr>],
       Returns \<lparr>State = Some \<lparr>Object_Bucket = Value ''media'', Object_Key = Value ''hello.txt'',
                   Object_Source = Value ''data.json'', Object_Content = Null,
                   Object_ContentType = Value [], Object_ETag = Value ''etag-1'',
                   Object_ID = Value ''media/hello.txt''\<rparr>,
                Diagnostics = []\<rparr>)"
  by (simp add: GarageObjectResource_Create_def fresh_Response_def HasError_def demo_object_def
        demo_object_env_def State_Set_def)

lemma Create_upload_result:
  assumes "fst (GarageObjectResource_Create env \<lparr>ObjectCreate_Plan = plan\<rparr> resp) = [Call_PutObject input]"
    and "PutObject env input = (Some out, None)" and "Put_ETag out = Some etag"
  shows "GarageObjectResource_Create env \<lparr>ObjectCreate_Plan = plan\<rparr> resp =
           ([Call_PutObject input],
            Returns (resp\<lparr>State := Some (plan
               \<lparr>Object_ID := Value (Put_Bucket input @ ''/'' @ Put_Key input),
                Object_ETag := Value etag,
                Object_ContentType := Value (Put_ContentType input)\<rparr>)\<rparr>))"
proof (cases "HasError (Diagnostics resp)")
  case True
  with assms(1) show ?thesis by (simp add: GarageObjectResource_Create_def)
next
  case noerr: False
  show ?thesis
  proof (cases "IsNull (Object_Source plan)")
    case False
    show ?thesis
    proof (cases "os_Open env (ValueString (Object_Source plan))")
      case (Inl err)
      with noerr False assms(1) show ?thesis
        by (simp add: GarageObjectResource_Create_def Let_def)
    next
      case (Inr contents)
      with noerr False assms(1) have
        "input = \<lparr>Put_Bucket = ValueString (Object_Bucket plan), Put_Key = ValueString (Object_Key plan),
                  Put_Body = contents,
                  Put_ContentType = (if IsNull (Object_ContentType plan) then ''application/octet-stream''
                                     else ValueString (Object_ContentType plan))\<rparr>"
        by (auto simp: GarageObjectResource_Create_def Let_def split: prod.splits option.splits)
      with noerr False Inr assms(2,3) show ?thesis
        by (simp add: GarageObjectResource_Create_def Let_def State_Set_def)
    qed
  next
    case True
    show ?thesis
    proof (cases "IsNull (Object_Content plan)")
      case nocontent: True
      with noerr True assms(1) show ?thesis
        by (simp add: GarageObjectResource_Create_def Let_def)
    next
      case False
      with noerr True assms(1) have
        "input = \<lparr>Put_Bucket = ValueString (Object_Bucket plan), Put_Key = ValueString (Object_Key plan),
                  Put_Body = ValueString (Object_Content plan),
                  Put_ContentType = (if IsNull (Object_ContentType plan) then ''text/plain''
                                     else ValueString (Object_ContentType plan))\<rparr>"
        by (auto simp: GarageObjectResource_Create_def Let_def split: prod.splits option.splits)
      with noerr True False assms(2,3) show ?thesis
        by (simp add: GarageObjectResource_Create_def Let_def State_Set_def)
    qed
  qed
qed

text \<open>
  C5. Object resource Update does what Create does on a create request that holds the
  plan of the update: the same calls and the same response. Whenever that is the upload of
  \<open>input\<close> and the service answers it with an ETag, the state of the update is the plan
  with the id \<open>bucket/key\<close> of the upload, the ETag of the answer and the content type of the
  upload.
\<close>

theorem GarageObjectResource_Update_is_Create:
  "GarageObjectResource_Update env req resp =
     GarageObjectResource_Create env \<lparr>ObjectCreate_Plan = ObjectUpdate_Plan req\<rparr> resp
   \<and> (\<forall>input out etag.
         fst (GarageObjectResource_Create env \<lparr>ObjectCreate_Plan = ObjectUpdate_Plan req\<rparr> resp)
           = [Call_PutObject input]
         \<and> PutObject env input = (Some out, None) \<and> Put_ETag out = Some etag
       \<longrightarrow> GarageObjectResource_Update env req resp =
             ([Call_PutObject input],
              Returns (resp\<lparr>State := Some ((ObjectUpdate_Plan req)
                 \<lparr>Object_ID := Value (Put_Bucket input @ ''/'' @ Put_Key input),
                  Object_ETag := Value etag,
                  Object_ContentType := Value (Put_ContentType input)\<rparr>)\<rparr>)))"
proof (intro conjI allI impI)
  show "GarageObjectResource_Update env req resp =
     GarageObjectResource_Create env \<lparr>ObjectCreate_Plan = ObjectUpdate_Plan req\<rparr> resp"
    by (simp add: GarageObjectResource_Update_def)
next
  fix input out etag
  assume a: "fst (GarageObjectResource_Create env \<lparr>ObjectCreate_Plan = ObjectUpdate_Plan req\<rparr> resp)
           = [Call_PutObject input]
         \<and> PutObject env input = (Some out, None) \<and> Put_ETag out = Some etag"
  show "GarageObjectResource_Update env req resp =
             ([Call_PutObject input],
              Returns (resp\<lparr>State := Some ((ObjectUpdate_Plan req)
                 \<lparr>Object_ID := Value (Put_Bucket input @ ''/'' @ Put_Key input),
                  Object_ETag := Value etag,
                  Object_ContentType := Value (Put_ContentType input)\<rparr>)\<rparr>))"
    unfolding GarageObjectResource_Update_def
    using Create_upload_result [of env "ObjectUpdate_Plan req" resp input out etag] a by simp
qed

theorem GarageObjectResource_Update_is_Create_witness:
  "GarageObjectResource_Update demo_object_env
      \<lparr>ObjectUpdate_Plan = demo_object\<lparr>Object_Content := Value ''updated-content''\<rparr>,
       ObjectUpdate_State = demo_object\<rparr>
      (fresh_Response (Some demo_object))
    = ([Call_PutObject \<lparr>Put_Bucket = ''media'', Put_Key = ''hello.txt'', Put_Body = ''updated-content'',
                        Put_ContentType = ''text/plain''\<rparr>],
       Returns \<lparr>State = Some \<lparr>Object_Bucket = Value ''media'', Object_Key = Value ''hello.txt'',
                   Object_Source = Null, Object_Content = Value ''updated-content'',
                   Object_ContentType = Value ''text/plain'', Object_ETag = Value ''etag-1'',
                   Object_ID = Value ''media/hello.txt''\<rparr>,
                Diagnostics = []\<rparr>)"
  using GarageObjectResource_Update_is_Create [of demo_object_env
      "\<lparr>ObjectUpdate_Plan = demo_object\<lparr>Object_Content := Value ''updated-content''\<rparr>,
       ObjectUpdate_State = demo_object\<rparr>"
      "fresh_Response (Some demo_object)"]
  by (simp add: fresh_Response_def HasError_def demo_object_def demo_object_env_def
        GarageObjectResource_Create_def Diagnostics_AddError_def State_Set_def)

text \<open>
  C6. Object resource ImportState. Every identifier that holds a slash is \<open>b/k\<close> with no
  slash in \<open>b\<close>, so that the slash shown is its first one. Such an identifier sets the
  bucket to \<open>b\<close>, the key to all of \<open>k\<close>, slashes included, and the id to the whole
  identifier; the other attributes of the state are not touched. An identifier without a
  slash sets nothing and is refused with the error "Invalid Import ID".
\<close>

theorem ImportState_splits_at_first_slash:
  "(CHR ''/'' \<in> set ident \<longrightarrow> (\<exists>b k. ident = b @ ''/'' @ k \<and> CHR ''/'' \<notin> set b))
   \<and> (CHR ''/'' \<notin> set b \<longrightarrow>
      GarageObjectResource_ImportState \<lparr>ObjectImport_ID = b @ ''/'' @ k\<rparr> resp =
        resp\<lparr>State := Some ((case State resp of None \<Rightarrow> null_object | Some st \<Rightarrow> st)
                  \<lparr>Object_Bucket := Value b, Object_Key := Value k,
                   Object_ID := Value (b @ ''/'' @ k)\<rparr>)\<rparr>)
   \<and> (CHR ''/'' \<notin> set s \<longrightarrow>
        State (GarageObjectResource_ImportState \<lparr>ObjectImport_ID = s\<rparr> resp) = State resp
        \<and> HasError (Diagnostics (GarageObjectResource_ImportState \<lparr>ObjectImport_ID = s\<rparr> resp))
        \<and> ErrorDiagnostic ''Invalid Import ID''
             (''Expected import ID in format 'bucket/key', got: '' @ s)
            \<in> set (Diagnostics (GarageObjectResource_ImportState \<lparr>ObjectImport_ID = s\<rparr> resp)))"
proof (intro conjI impI)
  assume "CHR ''/'' \<in> set ident"
  then show "\<exists>b k. ident = b @ ''/'' @ k \<and> CHR ''/'' \<notin> set b"
    using split_at_first [of "CHR ''/''" ident] by simp
next
  assume b: "CHR ''/'' \<notin> set b"
  have two: "(2::nat) = Suc (Suc 0)" by simp
  have parts: "SplitN (b @ ''/'' @ k) ''/'' 2 = [b, k]"
    unfolding two using Index_first_char [OF b, of k] by simp
  show "GarageObjectResource_ImportState \<lparr>ObjectImport_ID = b @ ''/'' @ k\<rparr> resp =
        resp\<lparr>State := Some ((case State resp of None \<Rightarrow> null_object | Some st \<Rightarrow> st)
                  \<lparr>Object_Bucket := Value b, Object_Key := Value k,
                   Object_ID := Value (b @ ''/'' @ k)\<rparr>)\<rparr>"
    using parts by (simp add: GarageObjectResource_ImportState_def State_SetAttribute_def Let_def)
next
  assume s: "CHR ''/'' \<notin> set s"
  have two: "(2::nat) = Suc (Suc 0)" by simp
  have parts: "SplitN s ''/'' 2 = [s]"
    unfolding two using Index_absent [OF s] by simp
  let ?r = "GarageObjectResource_ImportState \<lparr>ObjectImport_ID = s\<rparr> resp"
  have r: "?r = Diagnostics_AddError ''Invalid Import ID''
         (''Expected import ID in format 'bucket/key', got: '' @ s) resp"
    using parts by (simp add: GarageObjectResource_ImportState_def)
  show "State ?r = State resp" by (simp add: r Diagnostics_AddError_def)
  show "HasError (Diagnostics ?r)" by (simp add: r Diagnostics_AddError_def HasError_AddError)
  show "ErrorDiagnostic ''Invalid Import ID''
             (''Expected import ID in format 'bucket/key', got: '' @ s) \<in> set (Diagnostics ?r)"
    by (simp add: r Diagnostics_AddError_def AddError_member)
qed

theorem ImportState_splits_at_first_slash_witness:
  "GarageObjectResource_ImportState \<lparr>ObjectImport_ID = ''media/photos/2024/cat.jpg''\<rparr> (fresh_Response None) =
     \<lparr>State = Some \<lparr>Object_Bucket = Value ''media'', Object_Key = Value ''photos/2024/cat.jpg'',
                    Object_Source = Null, Object_Content = Null, Object_ContentType = Null,
                    Object_ETag = Null, Object_ID = Value ''media/photos/2024/cat.jpg''\<rparr>,
      Diagnostics = []\<rparr>
   \<and> State (GarageObjectResource_ImportState \<lparr>ObjectImport_ID = ''media''\<rparr> (fresh_Response None)) = None
   \<and> ErrorDiagnostic ''Invalid Import ID'' ''Expected import ID in format 'bucket/key', got: media''
        \<in> set (Diagnostics (GarageObjectResource_ImportState \<lparr>ObjectImport_ID = ''media''\<rparr> (fresh_Response None)))"
  using ImportState_splits_at_first_slash [of "''media/photos/2024/cat.jpg''" "''media''"
          "''photos/2024/cat.jpg''" "fresh_Response None" "''media''"]
  by (simp add: fresh_Response_def null_object_def)

lemma GarageObjectResource_Read_any_error:
  assumes "\<not> HasError (Diagnostics resp)"
    and "HeadObject env \<lparr>Head_Bucket = ValueString (Object_Bucket (ObjectRead_State req)),
                        Head_Key = ValueString (Object_Key (ObjectRead_State req))\<rparr> = (out, Some e)"
  shows "GarageObjectResource_Read env req resp =
           ([Call_HeadObject \<lparr>Head_Bucket = ValueString (Object_Bucket (ObjectRead_State req)),
                             Head_Key = ValueString (Object_Key (ObjectRead_State req))\<rparr>],
            Returns (resp\<lparr>State := None\<rparr>))"
  using assms by (simp add: GarageObjectResource_Read_def Let_def RemoveResource_def)

text \<open>
  C8. Object resource Read takes every error of HeadObject for a missing object
  (\<open>GarageObjectResource_Read_any_error\<close>). At a refused connection the tracked object is
  dropped from the state and no diagnostic is reported.
\<close>

theorem GarageObjectResource_Read_transport_error_drops_state:
  "GarageObjectResource_Read demo_object_env
      \<lparr>ObjectRead_State = demo_object\<lparr>Object_Bucket := Value ''offline''\<rparr>\<rparr>
      (fresh_Response (Some (demo_object\<lparr>Object_Bucket := Value ''offline''\<rparr>)))
    = ([Call_HeadObject \<lparr>Head_Bucket = ''offline'', Head_Key = ''hello.txt''\<rparr>],
       Returns \<lparr>State = None, Diagnostics = []\<rparr>)"
  by (simp add: GarageObjectResource_Read_def fresh_Response_def HasError_def demo_object_def
        demo_object_env_def RemoveResource_def)

subsection \<open>The bucket data source\<close>

text \<open>
  C1, as the code has it. Bucket data source Read, started on a response without errors.
  When both the id and the global alias are null, no client call is made and the read ends
  with the error "Missing Required Attribute". In every other case, also when both are
  set, the one call made is GetBucketInfo with the attributes that are set, and the read
  ends in one of three ways by the call's answer: "Client Error" on an error, "Bucket Not
  Found" on a nil bucket without error, and the state filled from the bucket otherwise.
\<close>

theorem BucketDataSource_Read_outcomes:
  assumes "\<not> HasError (Diagnostics resp)"
  shows "(IsNull (Bucket_ID (BucketRead_Config req)) \<and> IsNull (Bucket_GlobalAlias (BucketRead_Config req))
          \<longrightarrow> BucketDataSource_Read client req resp =
                ([], Returns (resp\<lparr>Diagnostics := Diagnostics resp @
                   [ErrorDiagnostic ''Missing Required Attribute''
                      ''Either 'id' or 'global_alias' must be specified.'']\<rparr>)))
       \<and> (\<not> (IsNull (Bucket_ID (BucketRead_Config req)) \<and> IsNull (Bucket_GlobalAlias (BucketRead_Config req)))
          \<longrightarrow> (let q = \<lparr>GetBucketInfo_ID =
                            (if IsNull (Bucket_ID (BucketRead_Config req)) then None
                             else Some (ValueString (Bucket_ID (BucketRead_Config req)))),
                          GetBucketInfo_GlobalAlias =
                            (if IsNull (Bucket_GlobalAlias (BucketRead_Config req)) then None
                             else Some (ValueString (Bucket_GlobalAlias (BucketRead_Config req))))\<rparr>
                in fst (BucketDataSource_Read client req resp) = [Call_GetBucketInfo q]
                 \<and> (\<forall>b e. GetBucketInfo client q = (b, Some e)
                       \<longrightarrow> snd (BucketDataSource_Read client req resp) =
                           Returns (resp\<lparr>Diagnostics := Diagnostics resp @
                             [ErrorDiagnostic ''Client Error'' (''Unable to read bucket, got error: '' @ e)]\<rparr>))
                 \<and> (GetBucketInfo client q = (None, None)
                       \<longrightarrow> snd (BucketDataSource_Read client req resp) =
                           Returns (resp\<lparr>Diagnostics := Diagnostics resp @
                             [ErrorDiagnostic ''Bucket Not Found'' ''The specified bucket could not be found.'']\<rparr>))
                 \<and> (\<forall>b. GetBucketInfo client q = (Some b, None)
                       \<longrightarrow> snd (BucketDataSource_Read client req resp) =
                           Returns (resp\<lparr>State := Some (populate b (BucketRead_Config req))\<rparr>))))"
proof (intro conjI impI)
  assume "IsNull (Bucket_ID (BucketRead_Config req)) \<and> IsNull (Bucket_GlobalAlias (BucketRead_Config req))"
  with assms show "BucketDataSource_Read client req resp =
                ([], Returns (resp\<lparr>Diagnostics := Diagnostics resp @
                   [ErrorDiagnostic ''Missing Required Attribute''
                      ''Either 'id' or 'global_alias' must be specified.'']\<rparr>))"
    by (simp add: BucketDataSource_Read_def Let_def Diagnostics_AddError_def AddError_fresh)
next
  assume some: "\<not> (IsNull (Bucket_ID (BucketRead_Config req)) \<and> IsNull (Bucket_GlobalAlias (BucketRead_Config req)))"
  define q where "q = \<lparr>GetBucketInfo_ID =
                            (if IsNull (Bucket_ID (BucketRead_Config req)) then None
                             else Some (ValueString (Bucket_ID (BucketRead_Config req)))),
                          GetBucketInfo_GlobalAlias =
                            (if IsNull (Bucket_GlobalAlias (BucketRead_Config req)) then None
                             else Some (ValueString (Bucket_GlobalAlias (BucketRead_Config req))))\<rparr>"
  have run: "BucketDataSource_Read client req resp =
      (case GetBucketInfo client q of (bucket, err) \<Rightarrow>
         (case err of
            Some e \<Rightarrow> ([Call_GetBucketInfo q],
                       Returns (Diagnostics_AddError ''Client Error''
                                  (''Unable to read bucket, got error: '' @ e) resp))
          | None \<Rightarrow>
             (case bucket of
                None \<Rightarrow> ([Call_GetBucketInfo q],
                          Returns (Diagnostics_AddError ''Bucket Not Found''
                                     ''The specified bucket could not be found.'' resp))
              | Some b \<Rightarrow> ([Call_GetBucketInfo q],
                            Returns (State_Set (populate b (BucketRead_Config req)) resp)))))"
    unfolding BucketDataSource_Read_def Let_def q_def using assms some by auto
  have calls: "fst (BucketDataSource_Read client req resp) = [Call_GetBucketInfo q]"
    by (simp add: run split: prod.splits option.splits)
  have failed: "\<And>b e. GetBucketInfo client q = (b, Some e) \<Longrightarrow>
      snd (BucketDataSource_Read client req resp) =
        Returns (resp\<lparr>Diagnostics := Diagnostics resp @
          [ErrorDiagnostic ''Client Error'' (''Unable to read bucket, got error: '' @ e)]\<rparr>)"
    using assms by (simp add: run Diagnostics_AddError_def AddError_fresh)
  have absent: "GetBucketInfo client q = (None, None) \<Longrightarrow>
      snd (BucketDataSource_Read client req resp) =
        Returns (resp\<lparr>Diagnostics := Diagnostics resp @
          [ErrorDiagnostic ''Bucket Not Found'' ''The specified bucket could not be found.'']\<rparr>)"
    using assms by (simp add: run Diagnostics_AddError_def AddError_fresh)
  have found: "\<And>b. GetBucketInfo client q = (Some b, None) \<Longrightarrow>
      snd (BucketDataSource_Read client req resp) =
        Returns (resp\<lparr>State := Some (populate b (BucketRead_Config req))\<rparr>)"
    by (simp add: run State_Set_def)
  from calls failed absent found
  show "let q = \<lparr>GetBucketInfo_ID =
                            (if IsNull (Bucket_ID (BucketRead_Config req)) then None
                             else Some (ValueString (Bucket_ID (BucketRead_Config req)))),
                          GetBucketInfo_GlobalAlias =
                            (if IsNull (Bucket_GlobalAlias (BucketRead_Config req)) then None
                             else Some (ValueString (Bucket_GlobalAlias (BucketRead_Config req))))\<rparr>
                in fst (BucketDataSource_Read client req resp) = [Call_GetBucketInfo q]
                 \<and> (\<forall>b e. GetBucketInfo client q = (b, Some e)
                       \<longrightarrow> snd (BucketDataSource_Read client req resp) =
                           Returns (resp\<lparr>Diagnostics := Diagnostics resp @
                             [ErrorDiagnostic ''Client Error'' (''Unable to read bucket, got error: '' @ e)]\<rparr>))
                 \<and> (GetBucketInfo client q = (None, None)
                       \<longrightarrow> snd (BucketDataSource_Read client req resp) =
                           Returns (resp\<lparr>Diagnostics := Diagnostics resp @
                             [ErrorDiagnostic ''Bucket Not Found'' ''The specified bucket could not be found.'']\<rparr>))
                 \<and> (\<forall>b. GetBucketInfo client q = (Some b, None)
                       \<longrightarrow> snd (BucketDataSource_Read client req resp) =
                           Returns (resp\<lparr>State := Some (populate b (BucketRead_Config req))\<rparr>))"
    unfolding Let_def q_def [symmetric] by blast
qed


theorem BucketDataSource_Read_outcomes_witness:
  "BucketDataSource_Read demo_bucket_client \<lparr>BucketRead_Config = demo_bucket_config\<rparr> (fresh_Response None)
     = ([], Returns \<lparr>State = None, Diagnostics =
          [ErrorDiagnostic ''Missing Required Attribute''
             ''Either 'id' or 'global_alias' must be specified.'']\<rparr>)
   \<and> fst (BucketDataSource_Read demo_bucket_client
            \<lparr>BucketRead_Config = demo_bucket_config\<lparr>Bucket_GlobalAlias := Value ''my-bucket''\<rparr>\<rparr>
            (fresh_Response None))
     = [Call_GetBucketInfo \<lparr>GetBucketInfo_ID = None, GetBucketInfo_GlobalAlias = Some ''my-bucket''\<rparr>]
   \<and> snd (BucketDataSource_Read demo_bucket_client
            \<lparr>BucketRead_Config = demo_bucket_config\<lparr>Bucket_GlobalAlias := Value ''my-bucket''\<rparr>\<rparr>
            (fresh_Response None))
     = Returns \<lparr>State = Some (populate demo_bucket_info
                              (demo_bucket_config\<lparr>Bucket_GlobalAlias := Value ''my-bucket''\<rparr>)),
                Diagnostics = []\<rparr>
   \<and> snd (BucketDataSource_Read demo_bucket_client
            \<lparr>BucketRead_Config = demo_bucket_config\<lparr>Bucket_GlobalAlias := Value ''other''\<rparr>\<rparr>
            (fresh_Response None))
     = Returns \<lparr>State = None, Diagnostics =
          [ErrorDiagnostic ''Bucket Not Found'' ''The specified bucket could not be found.'']\<rparr>"
  using BucketDataSource_Read_outcomes [of "fresh_Response None"
          "\<lparr>BucketRead_Config = demo_bucket_config\<rparr>" demo_bucket_client]
        BucketDataSource_Read_outcomes [of "fresh_Response None"
          "\<lparr>BucketRead_Config = demo_bucket_config\<lparr>Bucket_GlobalAlias := Value ''my-bucket''\<rparr>\<rparr>"
          demo_bucket_client]
        BucketDataSource_Read_outcomes [of "fresh_Response None"
          "\<lparr>BucketRead_Config = demo_bucket_config\<lparr>Bucket_GlobalAlias := Value ''other''\<rparr>\<rparr>"
          demo_bucket_client]
  by (simp add: fresh_Response_def HasError_def demo_bucket_config_def demo_bucket_client_def Let_def)

text \<open>
  C1 as stated does not hold: with only the id set, a refused connection gives neither a
  state nor "Bucket Not Found" but "Client Error"; and a lookup that sets both the id and
  the alias is not refused, both are sent.
\<close>

theorem BucketDataSource_Read_client_error_counterexample:
  "BucketDataSource_Read demo_bucket_client
      \<lparr>BucketRead_Config = demo_bucket_config\<lparr>Bucket_ID := Value ''down''\<rparr>\<rparr> (fresh_Response None)
    = ([Call_GetBucketInfo \<lparr>GetBucketInfo_ID = Some ''down'', GetBucketInfo_GlobalAlias = None\<rparr>],
       Returns \<lparr>State = None, Diagnostics =
          [ErrorDiagnostic ''Client Error'' ''Unable to read bucket, got error: connection refused'']\<rparr>)
   \<and> fst (BucketDataSource_Read demo_bucket_client
      \<lparr>BucketRead_Config = demo_bucket_config\<lparr>Bucket_ID := Value ''b1'', Bucket_GlobalAlias := Value ''other''\<rparr>\<rparr>
      (fresh_Response None))
    = [Call_GetBucketInfo \<lparr>GetBucketInfo_ID = Some ''b1'', GetBucketInfo_GlobalAlias = Some ''other''\<rparr>]"
  by (simp add: BucketDataSource_Read_def fresh_Response_def HasError_def demo_bucket_config_def
        demo_bucket_client_def Diagnostics_AddError_def AddError_def)

subsection \<open>The provider\<close>

lemma replacePort_absent:
  "Index endpoint ('':'' @ oldPort) = None \<Longrightarrow> replacePort endpoint oldPort newPort = endpoint"
  by (simp add: replacePort_def)

lemma replacePort_first:
  "Index endpoint ('':'' @ oldPort) = Some j \<Longrightarrow>
     replacePort endpoint oldPort newPort =
       take j endpoint @ '':'' @ newPort @ drop (j + Suc (length oldPort)) endpoint"
  by (simp add: replacePort_def)

text \<open>
  C7, as the code has it. Provider Configure, started on a response without errors, with
  the deprecated \<open>endpoint\<close> set to a non-empty value \<open>dep\<close>. Without an endpoints block
  the admin endpoint is \<open>dep\<close> and the S3 endpoint is \<open>dep\<close> with its port replaced. With a
  block whose admin value is null, unknown or empty the admin endpoint is \<open>dep\<close>, and the
  S3 endpoint is the block's S3 value when that is not empty, and only otherwise \<open>dep\<close> with
  its port replaced. A block with a non-empty admin value gives both endpoints, whatever
  \<open>endpoint\<close> holds, and nothing is replaced. Replacing the port puts ":3900" in the place
  of the first ":3903" (\<open>Index\<close> finds the first occurrence: \<open>Index_Some_occurs\<close>,
  \<open>Index_Some_first\<close>, \<open>Index_None_absent\<close>) and changes no endpoint without ":3903".
\<close>

theorem GarageProvider_Configure_endpoints:
  assumes "\<not> HasError (Configure_Diagnostics resp)"
  shows "(Provider_Endpoints cfg = None \<and> Provider_Endpoint cfg = Value dep \<and> dep \<noteq> []
          \<longrightarrow> map_option Provider_Endpoints
                (ResourceData (GarageProvider_Configure Getenv \<lparr>Configure_Config = cfg\<rparr> resp))
              = Some (Some \<lparr>Endpoints_Admin = Value dep,
                            Endpoints_S3 = Value (replacePort dep ''3903'' ''3900'')\<rparr>))
       \<and> (Provider_Endpoints cfg = Some e \<and> ValueString (Endpoints_Admin e) = []
            \<and> Provider_Endpoint cfg = Value dep \<and> dep \<noteq> []
          \<longrightarrow> map_option Provider_Endpoints
                (ResourceData (GarageProvider_Configure Getenv \<lparr>Configure_Config = cfg\<rparr> resp))
              = Some (Some \<lparr>Endpoints_Admin = Value dep,
                            Endpoints_S3 = Value (if ValueString (Endpoints_S3 e) = []
                                                  then replacePort dep ''3903'' ''3900''
                                                  else ValueString (Endpoints_S3 e))\<rparr>))
       \<and> (Provider_Endpoints cfg = Some e \<and> ValueString (Endpoints_Admin e) \<noteq> []
          \<longrightarrow> map_option Provider_Endpoints
                (ResourceData (GarageProvider_Configure Getenv \<lparr>Configure_Config = cfg\<rparr> resp))
              = Some (Some \<lparr>Endpoints_Admin = Value (ValueString (Endpoints_Admin e)),
                            Endpoints_S3 = Value (ValueString (Endpoints_S3 e))\<rparr>))
       \<and> (Index dep '':3903'' = None \<longrightarrow> replacePort dep ''3903'' ''3900'' = dep)
       \<and> (\<forall>j. Index dep '':3903'' = Some j
            \<longrightarrow> replacePort dep ''3903'' ''3900'' = take j dep @ '':3900'' @ drop (j + 5) dep)"
proof (intro conjI allI impI)
  assume "Provider_Endpoints cfg = None \<and> Provider_Endpoint cfg = Value dep \<and> dep \<noteq> []"
  with assms show "map_option Provider_Endpoints
                (ResourceData (GarageProvider_Configure Getenv \<lparr>Configure_Config = cfg\<rparr> resp))
              = Some (Some \<lparr>Endpoints_Admin = Value dep,
                            Endpoints_S3 = Value (replacePort dep ''3903'' ''3900'')\<rparr>)"
    by (simp add: GarageProvider_Configure_def Let_def)
next
  assume a: "Provider_Endpoints cfg = Some e \<and> ValueString (Endpoints_Admin e) = []
            \<and> Provider_Endpoint cfg = Value dep \<and> dep \<noteq> []"
  have "ValueString (Endpoints_S3 e) = [] \<or> \<not> IsNull (Endpoints_S3 e)"
    by (cases "Endpoints_S3 e") simp_all
  with assms a show "map_option Provider_Endpoints
                (ResourceData (GarageProvider_Configure Getenv \<lparr>Configure_Config = cfg\<rparr> resp))
              = Some (Some \<lparr>Endpoints_Admin = Value dep,
                            Endpoints_S3 = Value (if ValueString (Endpoints_S3 e) = []
                                                  then replacePort dep ''3903'' ''3900''
                                                  else ValueString (Endpoints_S3 e))\<rparr>)"
    by (auto simp: GarageProvider_Configure_def Let_def)
next
  assume a: "Provider_Endpoints cfg = Some e \<and> ValueString (Endpoints_Admin e) \<noteq> []"
  then have adm: "\<not> IsNull (Endpoints_Admin e)"
    by (cases "Endpoints_Admin e") simp_all
  have "ValueString (Endpoints_S3 e) = [] \<or> \<not> IsNull (Endpoints_S3 e)"
    by (cases "Endpoints_S3 e") simp_all
  with assms a adm show "map_option Provider_Endpoints
                (ResourceData (GarageProvider_Configure Getenv \<lparr>Configure_Config = cfg\<rparr> resp))
              = Some (Some \<lparr>Endpoints_Admin = Value (ValueString (Endpoints_Admin e)),
                            Endpoints_S3 = Value (ValueString (Endpoints_S3 e))\<rparr>)"
    by (auto simp: GarageProvider_Configure_def Let_def)
next
  assume "Index dep '':3903'' = None"
  then show "replacePort dep ''3903'' ''3900'' = dep"
    using replacePort_absent [of dep "''3903''" "''3900''"] by simp
next
  fix j
  assume "Index dep '':3903'' = Some j"
  then show "replacePort dep ''3903'' ''3900'' = take j dep @ '':3900'' @ drop (j + 5) dep"
    using replacePort_first [of dep "''3903''" j "''3900''"] by (simp add: eval_nat_numeral)
qed

theorem GarageProvider_Configure_endpoints_witness:
  "map_option Provider_Endpoints
     (ResourceData (GarageProvider_Configure demo_Getenv
        \<lparr>Configure_Config = demo_provider_config\<rparr> fresh_ConfigureResponse))
     = Some (Some \<lparr>Endpoints_Admin = Value ''http://localhost:3903'',
                   Endpoints_S3 = Value ''http://localhost:3900''\<rparr>)
   \<and> map_option Provider_Endpoints
     (ResourceData (GarageProvider_Configure demo_Getenv
        \<lparr>Configure_Config = demo_provider_config
           \<lparr>Provider_Endpoints := Some \<lparr>Endpoints_Admin = Null, Endpoints_S3 = Null\<rparr>\<rparr>\<rparr>
        fresh_ConfigureResponse))
     = Some (Some \<lparr>Endpoints_Admin = Value ''http://localhost:3903'',
                   Endpoints_S3 = Value ''http://localhost:3900''\<rparr>)
   \<and> map_option Provider_Endpoints
     (ResourceData (GarageProvider_Configure demo_Getenv
        \<lparr>Configure_Config = demo_provider_config
           \<lparr>Provider_Endpoints := Some \<lparr>Endpoints_Admin = Value ''http://admin:3903'',
                                        Endpoints_S3 = Value ''http://s3:3900''\<rparr>\<rparr>\<rparr>
        fresh_ConfigureResponse))
     = Some (Some \<lparr>Endpoints_Admin = Value ''http://admin:3903'',
                   Endpoints_S3 = Value ''http://s3:3900''\<rparr>)"
  using GarageProvider_Configure_endpoints [of fresh_ConfigureResponse demo_provider_config
          "''http://localhost:3903''" demo_Getenv "\<lparr>Endpoints_Admin = Null, Endpoints_S3 = Null\<rparr>"]
        GarageProvider_Configure_endpoints [of fresh_ConfigureResponse
          "demo_provider_config\<lparr>Provider_Endpoints := Some \<lparr>Endpoints_Admin = Null, Endpoints_S3 = Null\<rparr>\<rparr>"
          "''http://localhost:3903''" demo_Getenv "\<lparr>Endpoints_Admin = Null, Endpoints_S3 = Null\<rparr>"]
        GarageProvider_Configure_endpoints [of fresh_ConfigureResponse
          "demo_provider_config\<lparr>Provider_Endpoints := Some \<lparr>Endpoints_Admin = Value ''http://admin:3903'',
                                        Endpoints_S3 = Value ''http://s3:3900''\<rparr>\<rparr>"
          "''http://localhost:3903''" demo_Getenv
          "\<lparr>Endpoints_Admin = Value ''http://admin:3903'', Endpoints_S3 = Value ''http://s3:3900''\<rparr>"]
  by (simp add: fresh_ConfigureResponse_def demo_provider_config_def HasError_def)

text \<open>
  C7 as stated does not hold: with a block that gives only an S3 endpoint, and the
  deprecated \<open>endpoint\<close> set, the S3 endpoint is the block's value and not the deprecated
  endpoint with its port replaced.
\<close>

theorem GarageProvider_Configure_block_S3_counterexample:
  "map_option Provider_Endpoints
     (ResourceData (GarageProvider_Configure demo_Getenv
        \<lparr>Configure_Config = demo_provider_config
           \<lparr>Provider_Endpoints := Some \<lparr>Endpoints_Admin = Null,
                                        Endpoints_S3 = Value ''https://s3.example.org''\<rparr>\<rparr>\<rparr>
        fresh_ConfigureResponse))
     = Some (Some \<lparr>Endpoints_Admin = Value ''http://localhost:3903'',
                   Endpoints_S3 = Value ''https://s3.example.org''\<rparr>)
   \<and> replacePort ''http://localhost:3903'' ''3903'' ''3900'' = ''http://localhost:3900''"
  by (simp add: GarageProvider_Configure_def fresh_ConfigureResponse_def demo_provider_config_def
        HasError_def replacePort_def demo_Getenv_def Let_def)

end
